theory Spec2Isabelle
  imports Main "HOL-Library.Word" "HOL-Library.Sublist" "HOL-Library.List_Lexorder"
begin

section \<open>JavaScript strings and the runtime functions the scripts call\<close>

text \<open>
  A JavaScript string is a sequence of UTF-16 code units, and \<open>length\<close> counts code
  units. A string is therefore a list of 16-bit words. \<open>js\<close> embeds an ASCII literal of
  the source; the non-ASCII glyphs of the source are given by their code units.
\<close>

type_synonym jschar = "16 word"
type_synonym jsstring = "jschar list"

definition js :: "string \<Rightarrow> jsstring" where
  "js s = map of_char s"

definition newline :: jsstring where
  "newline = [0x0A]"

text \<open>Truthiness of an optional string: \<open>undefined\<close>, \<open>null\<close> and \<open>""\<close> are falsy.\<close>

fun truthy :: "jsstring option \<Rightarrow> bool" where
  "truthy None = False"
| "truthy (Some s) = (s \<noteq> [])"

text \<open>\<open>a || b\<close> on an optional string with a string default.\<close>

fun or_else :: "jsstring option \<Rightarrow> jsstring \<Rightarrow> jsstring" where
  "or_else None d = d"
| "or_else (Some s) d = (if s = [] then d else s)"

text \<open>\<open>Array.prototype.join\<close> on an array of strings.\<close>

fun join :: "jsstring \<Rightarrow> jsstring list \<Rightarrow> jsstring" where
  "join sep [] = []"
| "join sep [x] = x"
| "join sep (x # y # ys) = x @ sep @ join sep (y # ys)"

text \<open>
  \<open>String.prototype.split\<close> with a separator of one code unit: the result is never
  empty, and the subject without the separator is the only element.
\<close>

fun split :: "jschar \<Rightarrow> jsstring \<Rightarrow> jsstring list" where
  "split c [] = [[]]"
| "split c (x # xs) =
     (if x = c then [] # split c xs
      else (case split c xs of [] \<Rightarrow> [[x]] | p # ps \<Rightarrow> (x # p) # ps))"

text \<open>Element \<open>i\<close> of an array, \<open>undefined\<close> (\<open>None\<close>) out of range.\<close>

fun at_index :: "'a list \<Rightarrow> nat \<Rightarrow> 'a option" where
  "at_index [] i = None"
| "at_index (x # xs) 0 = Some x"
| "at_index (x # xs) (Suc i) = at_index xs i"

text \<open>Decimal rendering of an integer, as \<open>Number::toString\<close> gives it below \<open>10^21\<close>.\<close>

definition digit_char :: "nat \<Rightarrow> jschar" where
  "digit_char d = of_nat (48 + d)"

fun dec_nat :: "nat \<Rightarrow> jsstring" where
  "dec_nat n = (if n < 10 then [digit_char n] else dec_nat (n div 10) @ [digit_char (n mod 10)])"

definition dec_int :: "int \<Rightarrow> jsstring" where
  "dec_int i = (if i < 0 then js ''-'' @ dec_nat (nat (- i)) else dec_nat (nat i))"

subsection \<open>parseInt without a radix\<close>

text \<open>
  ECMAScript \<open>parseInt(string)\<close>: leading white space is skipped, a sign is read, a
  prefix \<open>0x\<close> or \<open>0X\<close> selects radix 16 (radix 10 otherwise), the longest prefix of
  digits is read, and the result is NaN (\<open>None\<close>) when that prefix is empty. The model
  returns the mathematical integer; the Number is its nearest double, equal to it below
  \<open>2^53\<close>, and every caller here maps larger values to an invalid date either way.
\<close>

definition is_white_space :: "jschar \<Rightarrow> bool" where
  "is_white_space c =
     (c \<in> set [0x0009, 0x000A, 0x000B, 0x000C, 0x000D, 0x0020, 0x00A0, 0x1680,
               0x2028, 0x2029, 0x202F, 0x205F, 0x3000, 0xFEFF]
      \<or> (0x2000 \<le> c \<and> c \<le> 0x200A))"

definition digit_value :: "jschar \<Rightarrow> nat option" where
  "digit_value c =
     (if 48 \<le> c \<and> c \<le> 57 then Some (unat c - 48)
      else if 65 \<le> c \<and> c \<le> 90 then Some (unat c - 55)
      else if 97 \<le> c \<and> c \<le> 122 then Some (unat c - 87)
      else None)"

definition is_radix_digit :: "nat \<Rightarrow> jschar \<Rightarrow> bool" where
  "is_radix_digit r c = (case digit_value c of None \<Rightarrow> False | Some d \<Rightarrow> d < r)"

definition digits_value :: "nat \<Rightarrow> jsstring \<Rightarrow> nat" where
  "digits_value r z = foldl (\<lambda>acc c. acc * r + (case digit_value c of None \<Rightarrow> 0 | Some d \<Rightarrow> d)) 0 z"

definition parseInt :: "jsstring \<Rightarrow> int option" where
  "parseInt inputString =
     (let s0 = dropWhile is_white_space inputString;
          sign = (if s0 \<noteq> [] \<and> hd s0 = 45 then - 1 else 1 :: int);
          s1 = (if s0 \<noteq> [] \<and> (hd s0 = 43 \<or> hd s0 = 45) then tl s0 else s0);
          hex = (take 2 s1 = js ''0x'' \<or> take 2 s1 = js ''0X'');
          s2 = (if hex then drop 2 s1 else s1);
          r = (if hex then 16 else 10);
          z = takeWhile (is_radix_digit r) s2
      in if z = [] then None else Some (sign * int (digits_value r z)))"

subsection \<open>Date(year, monthIndex) and toLocaleDateString\<close>

text \<open>
  \<open>new Date(year, monthIndex)\<close> is local midnight on the first day of a month. The
  model keeps the calendar year and the month index (0 to 11) of that day, or \<open>None\<close>
  for an invalid date. As ECMAScript has it: a NaN argument gives an invalid date, a year
  from 0 to 99 means 1900 plus that year, the month index carries into the year
  (MakeDay), and the time value must lie within \<open>8.64 * 10^15\<close> ms of the epoch, which for
  the first of a month means from May of year -271821 to September of year 275760.
\<close>

definition newDate :: "int option \<Rightarrow> int option \<Rightarrow> (int \<times> nat) option" where
  "newDate year monthIndex =
     (case year of None \<Rightarrow> None
      | Some y \<Rightarrow>
         (case monthIndex of None \<Rightarrow> None
          | Some m \<Rightarrow>
             (let yr = (if 0 \<le> y \<and> y \<le> 99 then 1900 + y else y);
                  ym = yr + m div 12;
                  mn = m mod 12;
                  k = ym * 12 + mn
              in if - 271821 * 12 + 4 \<le> k \<and> k \<le> 275760 * 12 + 8
                 then Some (ym, nat mn) else None)))"

definition month_short :: "nat \<Rightarrow> jsstring" where
  "month_short mn =
     [js ''Jan'', js ''Feb'', js ''Mar'', js ''Apr'', js ''May'', js ''Jun'',
      js ''Jul'', js ''Aug'', js ''Sep'', js ''Oct'', js ''Nov'', js ''Dec''] ! (mn mod 12)"

text \<open>
  \<open>date.toLocaleDateString('en-US', { month: 'short', year: 'numeric' })\<close>: the
  abbreviated month, a space and the year of the era without padding or grouping; the
  string \<open>Invalid Date\<close> for an invalid date. The date is read back in the time zone it
  was built in, so the fields are those of \<open>newDate\<close>.
\<close>

definition toLocaleDateString :: "(int \<times> nat) option \<Rightarrow> jsstring" where
  "toLocaleDateString d =
     (case d of None \<Rightarrow> js ''Invalid Date''
      | Some (y, mn) \<Rightarrow> month_short mn @ js '' '' @ dec_int (if y \<le> 0 then 1 - y else y))"

section \<open>The CV document\<close>

record personal_info =
  name :: jsstring
  title :: jsstring
  email :: jsstring
  location :: jsstring
  linkedin :: "jsstring option"
  github :: "jsstring option"

record experience_entry =
  exp_id :: jsstring
  exp_title :: jsstring
  company :: jsstring
  exp_location :: jsstring
  exp_startDate :: jsstring
  exp_endDate :: "jsstring option"
  exp_description :: jsstring
  achievements :: "jsstring list"
  exp_skills :: "jsstring list"
  exp_visibility :: "jsstring list option"

record skill_category =
  category :: jsstring
  cat_skills :: "jsstring list"

record skills_info =
  technical :: "skill_category list"
  soft :: "jsstring list option"

record education_entry =
  edu_id :: jsstring
  degree :: jsstring
  institution :: jsstring
  edu_location :: jsstring
  edu_startDate :: jsstring
  edu_endDate :: "jsstring option"
  edu_description :: "jsstring option"
  edu_visibility :: "jsstring list option"

record project_entry =
  proj_id :: jsstring
  proj_name :: jsstring
  proj_description :: jsstring
  proj_url :: "jsstring option"
  proj_github :: "jsstring option"
  technologies :: "jsstring list"
  highlights :: "jsstring list"
  proj_visibility :: "jsstring list option"

record language_entry =
  lang_name :: jsstring
  proficiency :: jsstring

record CVData =
  personal :: personal_info
  summary :: jsstring
  experience :: "experience_entry list"
  skills :: skills_info
  education :: "education_entry list"
  projects :: "project_entry list option"
  languages :: "language_entry list option"

section \<open>The Markdown exporter\<close>

fun formatDate :: "jsstring option \<Rightarrow> jsstring" where
  "formatDate None = js ''Present''"
| "formatDate (Some dateStr) =
     (if dateStr = [] then js ''Present''
      else
        (let parts = split 45 dateStr;
             year = hd parts;
             month = at_index parts 1
         in if \<not> truthy month then year
            else toLocaleDateString
                   (newDate (parseInt year) (map_option (\<lambda>m. m - 1) (parseInt (the month))))))"

text \<open>
  \<open>isVisible\<close> reads only the \<open>visibility\<close> field of an item; an array, even an empty
  one, is truthy.
\<close>

fun isVisible :: "jsstring list option \<Rightarrow> bool \<Rightarrow> bool" where
  "isVisible visibility includeHidden =
     (if includeHidden then True
      else (case visibility of None \<Rightarrow> True | Some v \<Rightarrow> js ''all'' \<in> set v))"

definition header_lines :: "CVData \<Rightarrow> jsstring list" where
  "header_lines cv =
     [js ''# '' @ name (personal cv),
      js ''**'' @ title (personal cv) @ js ''**'',
      [],
      location (personal cv) @ js '' | '' @ email (personal cv)]
     @ (if truthy (linkedin (personal cv)) then [js ''LinkedIn: '' @ the (linkedin (personal cv))] else [])
     @ (if truthy (github (personal cv)) then [js ''GitHub: '' @ the (github (personal cv))] else [])
     @ [[]]"

definition summary_lines :: "CVData \<Rightarrow> jsstring list" where
  "summary_lines cv = [js ''## Summary'', [], summary cv, []]"

definition visibleExperience :: "CVData \<Rightarrow> bool \<Rightarrow> experience_entry list" where
  "visibleExperience cv includeHidden =
     filter (\<lambda>exp. isVisible (exp_visibility exp) includeHidden) (experience cv)"

definition experience_entry_lines :: "experience_entry \<Rightarrow> jsstring list" where
  "experience_entry_lines exp =
     (let dates = formatDate (Some (exp_startDate exp)) @ js '' - '' @ formatDate (exp_endDate exp)
      in [js ''### '' @ exp_title exp @ js '' at '' @ company exp,
          js ''*'' @ exp_location exp @ js '' | '' @ dates @ js ''*'',
          [],
          exp_description exp,
          []]
         @ (if length (achievements exp) > 0
            then [js ''**Key Achievements:**''] @ map (\<lambda>achievement. js ''- '' @ achievement) (achievements exp) @ [[]]
            else [])
         @ (if length (exp_skills exp) > 0
            then [js ''**Technologies:** '' @ join (js '', '') (exp_skills exp), []]
            else []))"

definition experience_lines :: "CVData \<Rightarrow> bool \<Rightarrow> jsstring list" where
  "experience_lines cv includeHidden =
     [js ''## Experience'', []] @ concat (map experience_entry_lines (visibleExperience cv includeHidden))"

definition skills_lines :: "CVData \<Rightarrow> jsstring list" where
  "skills_lines cv =
     [js ''## Skills'', []]
     @ concat (map (\<lambda>c. [js ''**'' @ category c @ js '':** '' @ join (js '', '') (cat_skills c), []])
                   (technical (skills cv)))
     @ (case soft (skills cv) of None \<Rightarrow> []
        | Some s \<Rightarrow> if length s > 0 then [js ''**Soft Skills:** '' @ join (js '', '') s, []] else [])"

definition visibleEducation :: "CVData \<Rightarrow> bool \<Rightarrow> education_entry list" where
  "visibleEducation cv includeHidden =
     filter (\<lambda>edu. isVisible (edu_visibility edu) includeHidden) (education cv)"

definition education_entry_lines :: "education_entry \<Rightarrow> jsstring list" where
  "education_entry_lines edu =
     (let dates = edu_startDate edu @ js '' - '' @ or_else (edu_endDate edu) (js ''Present'')
      in [js ''### '' @ degree edu,
          js ''*'' @ institution edu @ js '', '' @ edu_location edu @ js '' | '' @ dates @ js ''*'']
         @ (if truthy (edu_description edu) then [[], the (edu_description edu)] else [])
         @ [[]])"

definition education_lines :: "CVData \<Rightarrow> bool \<Rightarrow> jsstring list" where
  "education_lines cv includeHidden =
     [js ''## Education'', []] @ concat (map education_entry_lines (visibleEducation cv includeHidden))"

definition project_entry_lines :: "project_entry \<Rightarrow> jsstring list" where
  "project_entry_lines proj =
     [js ''### '' @ proj_name proj, [], proj_description proj, []]
     @ (if truthy (proj_url proj) then [js ''**URL:** '' @ the (proj_url proj)] else [])
     @ (if truthy (proj_github proj) then [js ''**GitHub:** '' @ the (proj_github proj)] else [])
     @ (if length (highlights proj) > 0
        then [[], js ''**Highlights:**''] @ map (\<lambda>highlight. js ''- '' @ highlight) (highlights proj)
        else [])
     @ (if length (technologies proj) > 0
        then [[], js ''**Technologies:** '' @ join (js '', '') (technologies proj)]
        else [])
     @ [[]]"

definition projects_lines :: "CVData \<Rightarrow> bool \<Rightarrow> jsstring list" where
  "projects_lines cv includeHidden =
     (case projects cv of None \<Rightarrow> []
      | Some ps \<Rightarrow>
          if length ps > 0
          then (let visibleProjects = filter (\<lambda>proj. isVisible (proj_visibility proj) includeHidden) ps
                in if length visibleProjects > 0
                   then [js ''## Projects'', []] @ concat (map project_entry_lines visibleProjects)
                   else [])
          else [])"

definition languages_lines :: "CVData \<Rightarrow> jsstring list" where
  "languages_lines cv =
     (case languages cv of None \<Rightarrow> []
      | Some ls \<Rightarrow>
          if length ls > 0
          then [js ''## Languages'', []]
               @ map (\<lambda>lang. js ''- **'' @ lang_name lang @ js '':** '' @ proficiency lang) ls
               @ [[]]
          else [])"

text \<open>The array \<open>lines\<close> at the \<open>return\<close> of \<open>exportToMarkdown\<close>, section by section.\<close>

definition markdown_lines :: "CVData \<Rightarrow> bool \<Rightarrow> jsstring list" where
  "markdown_lines cv includeHidden =
     header_lines cv @ summary_lines cv @ experience_lines cv includeHidden @ skills_lines cv
     @ education_lines cv includeHidden @ projects_lines cv includeHidden @ languages_lines cv"

definition exportToMarkdown :: "CVData \<Rightarrow> bool \<Rightarrow> jsstring" where
  "exportToMarkdown cv includeHidden = join newline (markdown_lines cv includeHidden)"

section \<open>Effects of a run\<close>

text \<open>
  A run of a script is the list of its effects, in order, and the way it ends.
  \<open>console.error\<close> may be given an Error object after its text; the object is kept by
  its message, since its rendering on the console (with a stack trace) is the runtime's.
\<close>

datatype console_arg = Text jsstring | ErrorObject jsstring

record article =
  a_title :: jsstring
  body_markdown :: jsstring
  published :: bool
  a_tags :: "jsstring list option"
  canonical_url :: jsstring
  a_description :: jsstring

text \<open>
  The argument of \<open>fetch\<close>. \<open>body\<close> is the value given to \<open>JSON.stringify\<close>, the
  object \<open>{ article }\<close>; a field that is \<open>undefined\<close> (\<open>None\<close>) is left out of the JSON
  text.
\<close>

record request =
  url :: jsstring
  http_method :: jsstring
  headers :: "(jsstring \<times> jsstring) list"
  body :: article

datatype event =
    ConsoleLog jsstring
  | ConsoleError "console_arg list"
  | StdoutWrite jsstring
  | StderrWrite jsstring
  | ExistsSync jsstring
  | ReadFileSync jsstring
  | Fetch request

datatype outcome = Returned | Exited int | Threw

text \<open>
  What a response body is to the publisher: not JSON (\<open>response.json()\<close> rejects with
  an error of the given message), or JSON of which the script reads
  \<open>JSON.stringify(body, null, 2)\<close> and the fields \<open>id\<close> and \<open>url\<close> as they print in a
  template literal.
\<close>

datatype response_body = NotJson jsstring | Json jsstring jsstring jsstring

datatype fetch_result = Rejected jsstring | Response bool response_body

text \<open>
  The environment of a run: the command line, the environment variable read by the
  publisher, the directory of the script, the files (the text at a path, \<open>None\<close> when
  there is no file) and the answer of the network to a request.
\<close>

record world =
  process_argv :: "jsstring list"
  DEVTO_API_KEY :: "jsstring option"
  dirname :: jsstring
  files :: "jsstring \<Rightarrow> jsstring option"
  fetch :: "request \<Rightarrow> fetch_result"

section \<open>The cross-post publisher: frontmatter\<close>

record devTo_meta =
  devTo_published :: "bool option"
  devTo_url :: "jsstring option"

record crosspost_meta =
  devTo :: "devTo_meta option"

record frontmatter =
  fm_title :: jsstring
  fm_description :: jsstring
  fm_tags :: "jsstring list option"
  draft :: "bool option"
  canonicalUrl :: "jsstring option"
  crosspost :: "crosspost_meta option"

record post_file =
  data :: frontmatter
  content :: jsstring

text \<open>
  Functions of the JavaScript runtime and of the libraries the scripts import, whose
  code is not part of the repository: \<open>path.join\<close> and \<open>path.resolve\<close>,
  \<open>JSON.parse\<close> on the text of the CV file and \<open>matter\<close> (gray-matter) on the text of a
  post (\<open>None\<close> when they throw), the Unicode case mappings of \<open>toUpperCase\<close> and
  \<open>toLowerCase\<close>, and \<open>render_pdf\<close>, the part of the tailored PDF generator that runs
  once its input file is known to exist (clean-up of the Markdown text, conversion to
  HTML and the headless browser), given the input and the output path.
\<close>

record runtime =
  path_join :: "jsstring list \<Rightarrow> jsstring"
  path_resolve :: "jsstring \<Rightarrow> jsstring"
  JSON_parse :: "jsstring \<Rightarrow> CVData option"
  matter :: "jsstring \<Rightarrow> post_file option"
  toUpperCase :: "jsstring \<Rightarrow> jsstring"
  toLowerCase :: "jsstring \<Rightarrow> jsstring"
  render_pdf :: "world \<Rightarrow> jsstring \<Rightarrow> jsstring \<Rightarrow> event list \<times> outcome"

text \<open>The text a run leaves on standard output and on standard error.\<close>

fun render_arg :: "console_arg \<Rightarrow> jsstring" where
  "render_arg (Text s) = s"
| "render_arg (ErrorObject m) = js ''Error: '' @ m"

fun stdout_of :: "event \<Rightarrow> jsstring" where
  "stdout_of (ConsoleLog s) = s @ newline"
| "stdout_of (StdoutWrite s) = s"
| "stdout_of _ = []"

fun stderr_of :: "event \<Rightarrow> jsstring" where
  "stderr_of (ConsoleError args) = join (js '' '') (map render_arg args) @ newline"
| "stderr_of (StderrWrite s) = s"
| "stderr_of _ = []"

definition stdout_text :: "event list \<Rightarrow> jsstring" where
  "stdout_text evs = concat (map stdout_of evs)"

definition stderr_text :: "event list \<Rightarrow> jsstring" where
  "stderr_text evs = concat (map stderr_of evs)"

fun is_network :: "event \<Rightarrow> bool" where
  "is_network (Fetch r) = True"
| "is_network _ = False"

fun is_file_access :: "event \<Rightarrow> bool" where
  "is_file_access (ExistsSync p) = True"
| "is_file_access (ReadFileSync p) = True"
| "is_file_access _ = False"

fun is_error_print :: "event \<Rightarrow> bool" where
  "is_error_print (ConsoleError args) = True"
| "is_error_print (StderrWrite s) = True"
| "is_error_print _ = False"

section \<open>The Markdown exporter: main\<close>

definition CV_JSON_PATH :: "runtime \<Rightarrow> world \<Rightarrow> jsstring" where
  "CV_JSON_PATH rt w = path_join rt [dirname w, js ''..'', js ''src'', js ''data'', js ''cv.json'']"

definition markdown_main :: "runtime \<Rightarrow> world \<Rightarrow> event list \<times> outcome" where
  "markdown_main rt w =
     (let args = drop 2 (process_argv w);
          includeHidden = (js ''--include-hidden'' \<in> set args);
          p = CV_JSON_PATH rt w
      in case files w p of
           None \<Rightarrow>
             ([ExistsSync p, StderrWrite (js ''Error: CV JSON not found at '' @ p @ newline)], Exited 1)
         | Some text \<Rightarrow>
             (case JSON_parse rt text of
                None \<Rightarrow> ([ExistsSync p, ReadFileSync p], Threw)
              | Some cvData \<Rightarrow>
                  ([ExistsSync p, ReadFileSync p, StdoutWrite (exportToMarkdown cvData includeHidden)],
                   Returned)))"

section \<open>The LinkedIn exporter\<close>

text \<open>The glyphs of the source outside ASCII, by their UTF-16 code units.\<close>

definition warning_sign :: jsstring where
  "warning_sign = [0x26A0, 0xFE0F]"

definition bullet :: jsstring where
  "bullet = [0x2022]"

definition e_mail_symbol :: jsstring where
  "e_mail_symbol = [0xD83D, 0xDCE7]"

definition computer_symbol :: jsstring where
  "computer_symbol = [0xD83D, 0xDCBB]"

definition light_bulb :: jsstring where
  "light_bulb = [0xD83D, 0xDCA1]"

definition double_rule :: "nat \<Rightarrow> jsstring" where
  "double_rule n = replicate n 0x2550"

definition light_rule :: "nat \<Rightarrow> jsstring" where
  "light_rule n = replicate n 0x2500"

text \<open>The exporter's own \<open>isVisible\<close>, of one argument.\<close>

fun isVisible_linkedin :: "jsstring list option \<Rightarrow> bool" where
  "isVisible_linkedin None = True"
| "isVisible_linkedin (Some v) = (js ''all'' \<in> set v)"

text \<open>
  \<open>truncateWithWarning\<close> returns a string and may write two lines to standard error.
  Its callers pass the integer limits 220, 2600 and 2000.
\<close>

definition truncateWithWarning :: "jsstring \<Rightarrow> int \<Rightarrow> jsstring \<Rightarrow> jsstring \<times> event list" where
  "truncateWithWarning text limit label =
     (if int (length text) \<le> limit then (text, [])
      else (text,
            [ConsoleError [Text (newline @ warning_sign @ js ''  Warning: '' @ label @ js '' exceeds ''
                                 @ dec_int limit @ js '' characters ('' @ dec_int (int (length text))
                                 @ js '' chars)'')],
             ConsoleError [Text (js ''   Consider shortening by '' @ dec_int (int (length text) - limit)
                                 @ js '' characters'' @ newline)]]))"

definition headline_text :: "CVData \<Rightarrow> jsstring" where
  "headline_text cv =
     title (personal cv) @ js '' | React, Next.js, TypeScript | Building high-performance web applications''"

definition generateHeadline :: "CVData \<Rightarrow> jsstring \<times> event list" where
  "generateHeadline cv = truncateWithWarning (headline_text cv) 220 (js ''Headline'')"

definition expertise_line :: "CVData \<Rightarrow> string \<Rightarrow> string \<Rightarrow> nat \<Rightarrow> jsstring list" where
  "expertise_line cv cat label n =
     (case find (\<lambda>c. category c = js cat) (technical (skills cv)) of
        None \<Rightarrow> []
      | Some found \<Rightarrow> [bullet @ js label @ join (js '', '') (take n (cat_skills found))])"

definition about_lines :: "CVData \<Rightarrow> jsstring list" where
  "about_lines cv =
     [summary cv, [], js ''Core Expertise:'']
     @ expertise_line cv ''Frontend Engineering'' '' Frontend: '' 6
     @ expertise_line cv ''Testing & Quality'' '' Testing: '' 5
     @ expertise_line cv ''Architecture & Performance'' '' Architecture: '' 5
     @ expertise_line cv ''Leadership & Collaboration'' '' Leadership: '' 4
     @ [[], e_mail_symbol @ js '' '' @ email (personal cv)]
     @ (if truthy (github (personal cv)) then [computer_symbol @ js '' '' @ the (github (personal cv))] else [])"

definition generateAbout :: "CVData \<Rightarrow> jsstring \<times> event list" where
  "generateAbout cv = truncateWithWarning (join newline (about_lines cv)) 2600 (js ''About section'')"

definition role_text :: "experience_entry \<Rightarrow> jsstring" where
  "role_text exp =
     join newline
       ([exp_description exp, []]
        @ (if length (achievements exp) > 0
           then [js ''Key Achievements:''] @ map (\<lambda>achievement. bullet @ js '' '' @ achievement) (achievements exp)
           else [])
        @ (if length (exp_skills exp) > 0
           then [[], js ''Technologies: '' @ join (js '', '') (exp_skills exp)]
           else []))"

text \<open>One turn of the loop of \<open>generateExperience\<close>: the lines pushed and the warnings.\<close>

definition experience_turn :: "(jsstring \<Rightarrow> jsstring) \<Rightarrow> experience_entry \<Rightarrow> jsstring list \<times> event list" where
  "experience_turn upper exp =
     (let truncated = truncateWithWarning (role_text exp) 2000 (company exp @ js '' - '' @ exp_title exp)
      in ([double_rule 50,
           upper (exp_title exp),
           company exp @ js '' '' @ bullet @ js '' '' @ exp_location exp,
           light_rule 50,
           [],
           fst truncated,
           []],
          snd truncated))"

definition generateExperience :: "(jsstring \<Rightarrow> jsstring) \<Rightarrow> CVData \<Rightarrow> jsstring \<times> event list" where
  "generateExperience upper cv =
     (let visibleExperience = filter (\<lambda>exp. isVisible_linkedin (exp_visibility exp)) (experience cv);
          turns = map (experience_turn upper) visibleExperience
      in (join newline (concat (map fst turns)), concat (map snd turns)))"

text \<open>\<open>[...new Set(allSkills)]\<close>: the first occurrence of each element, in order.\<close>

fun distinct_in_order :: "'a list \<Rightarrow> 'a list \<Rightarrow> 'a list" where
  "distinct_in_order seen [] = []"
| "distinct_in_order seen (x # xs) =
     (if x \<in> set seen then distinct_in_order seen xs else x # distinct_in_order (x # seen) xs)"

text \<open>
  \<open>sort()\<close> without a comparator orders strings by their code units, the order of
  lists of words.
\<close>

definition generateSkills :: "CVData \<Rightarrow> jsstring" where
  "generateSkills cv =
     (let allSkills = concat (map cat_skills (technical (skills cv)));
          uniqueSkills = sort (distinct_in_order [] allSkills)
      in join newline
           [js ''SKILLS FOR LINKEDIN'',
            double_rule 50,
            js ''Copy these to your LinkedIn Skills section:'',
            [],
            join newline uniqueSkills])"

definition generateEducation :: "CVData \<Rightarrow> jsstring" where
  "generateEducation cv =
     (let visibleEducation = filter (\<lambda>edu. isVisible_linkedin (edu_visibility edu)) (education cv)
      in join newline
           ([js ''EDUCATION'', double_rule 50]
            @ concat (map (\<lambda>edu.
                 [[], degree edu, institution edu,
                  edu_startDate edu @ js '' - '' @ or_else (edu_endDate edu) (js ''Present'')]
                 @ (if truthy (edu_description edu) then [the (edu_description edu)] else []))
                visibleEducation)))"

definition banner :: "event list" where
  "banner =
     [ConsoleLog ([0x2554] @ double_rule 50 @ [0x2557]),
      ConsoleLog ([0x2551] @ js ''           LINKEDIN CV EXPORT                     '' @ [0x2551]),
      ConsoleLog ([0x255A] @ double_rule 50 @ [0x255D]),
      ConsoleLog []]"

definition tip :: "event list" where
  "tip =
     [ConsoleLog [],
      ConsoleLog (double_rule 50),
      ConsoleLog (light_bulb @ js '' Tip: Use specific sections with:''),
      ConsoleLog (js ''   npm run cv:linkedin headline''),
      ConsoleLog (js ''   npm run cv:linkedin about''),
      ConsoleLog (js ''   npm run cv:linkedin experience''),
      ConsoleLog (js ''   npm run cv:linkedin skills''),
      ConsoleLog (js ''   npm run cv:linkedin education'')]"

text \<open>
  The sections \<open>main\<close> prints for a document and a section selector. The arguments of
  a \<open>console.log\<close> are evaluated before it prints, so the warnings of a generator come
  before its text.
\<close>

definition linkedin_sections :: "(jsstring \<Rightarrow> jsstring) \<Rightarrow> CVData \<Rightarrow> jsstring option \<Rightarrow> event list" where
  "linkedin_sections upper cvData section =
     (if \<not> truthy section \<or> section = Some (js ''headline'')
      then [ConsoleLog (js ''HEADLINE (220 chars max)''), ConsoleLog (double_rule 50)]
           @ snd (generateHeadline cvData) @ [ConsoleLog (fst (generateHeadline cvData)), ConsoleLog []]
      else [])
     @ (if \<not> truthy section \<or> section = Some (js ''summary'') \<or> section = Some (js ''about'')
        then [ConsoleLog (js ''ABOUT / SUMMARY (2,600 chars max)''), ConsoleLog (double_rule 50)]
             @ snd (generateAbout cvData) @ [ConsoleLog (fst (generateAbout cvData)), ConsoleLog []]
        else [])
     @ (if \<not> truthy section \<or> section = Some (js ''experience'')
        then [ConsoleLog (js ''EXPERIENCE (2,000 chars per role)'')]
             @ snd (generateExperience upper cvData) @ [ConsoleLog (fst (generateExperience upper cvData))]
        else [])
     @ (if \<not> truthy section \<or> section = Some (js ''skills'')
        then [ConsoleLog (generateSkills cvData), ConsoleLog []]
        else [])
     @ (if \<not> truthy section \<or> section = Some (js ''education'')
        then [ConsoleLog (generateEducation cvData), ConsoleLog []]
        else [])"

definition linkedin_section :: "runtime \<Rightarrow> world \<Rightarrow> jsstring option" where
  "linkedin_section rt w = map_option (toLowerCase rt) (at_index (drop 2 (process_argv w)) 0)"

definition linkedin_main :: "runtime \<Rightarrow> world \<Rightarrow> event list \<times> outcome" where
  "linkedin_main rt w =
     (let section = linkedin_section rt w;
          p = CV_JSON_PATH rt w
      in case files w p of
           None \<Rightarrow>
             ([ExistsSync p, ConsoleError [Text (js ''Error: CV JSON not found at''), Text p]], Exited 1)
         | Some text \<Rightarrow>
             (case JSON_parse rt text of
                None \<Rightarrow> ([ExistsSync p, ReadFileSync p], Threw)
              | Some cvData \<Rightarrow>
                  ([ExistsSync p, ReadFileSync p] @ banner
                   @ linkedin_sections (toUpperCase rt) cvData section @ tip,
                   Returned)))"

section \<open>The cross-post publisher\<close>

definition cross_mark :: jsstring where
  "cross_mark = [0x274C]"

definition memo_symbol :: jsstring where
  "memo_symbol = [0xD83D, 0xDCDD]"

definition check_mark :: jsstring where
  "check_mark = [0x2705]"

definition DEVTO_API_URL :: jsstring where
  "DEVTO_API_URL = js ''https://dev.to/api/articles''"

definition SITE_URL :: jsstring where
  "SITE_URL = js ''https://camarneiro.com''"

text \<open>An optional string in a template literal: \<open>undefined\<close> prints as that word.\<close>

fun template :: "jsstring option \<Rightarrow> jsstring" where
  "template None = js ''undefined''"
| "template (Some s) = s"

text \<open>\<open>frontmatter.crosspost?.devTo?.published\<close> as a condition.\<close>

definition already_published :: "frontmatter \<Rightarrow> bool" where
  "already_published fm =
     (case crosspost fm of None \<Rightarrow> False
      | Some c \<Rightarrow> (case devTo c of None \<Rightarrow> False | Some d \<Rightarrow> devTo_published d = Some True))"

definition already_published_url :: "frontmatter \<Rightarrow> jsstring option" where
  "already_published_url fm =
     (case crosspost fm of None \<Rightarrow> None
      | Some c \<Rightarrow> (case devTo c of None \<Rightarrow> None | Some d \<Rightarrow> devTo_url d))"

definition canonicalUrl_of :: "jsstring \<Rightarrow> frontmatter \<Rightarrow> jsstring" where
  "canonicalUrl_of slug fm = or_else (canonicalUrl fm) (SITE_URL @ js ''/blog/'' @ slug)"

definition article_of :: "jsstring \<Rightarrow> post_file \<Rightarrow> article" where
  "article_of slug post =
     \<lparr> a_title = fm_title (data post),
       body_markdown = content post,
       published = (draft (data post) \<noteq> Some True),
       a_tags = map_option (take 4) (fm_tags (data post)),
       canonical_url = canonicalUrl_of slug (data post),
       a_description = fm_description (data post) \<rparr>"

definition request_of :: "jsstring \<Rightarrow> article \<Rightarrow> request" where
  "request_of key art =
     \<lparr> url = DEVTO_API_URL,
       http_method = js ''POST'',
       headers = [(js ''Content-Type'', js ''application/json''), (js ''api-key'', key)],
       body = art \<rparr>"

definition publish_failed :: "jsstring \<Rightarrow> event list \<times> outcome" where
  "publish_failed message =
     ([ConsoleError [Text (cross_mark @ js '' Error publishing to DEV.to:''), ErrorObject message]], Exited 1)"

text \<open>The \<open>try\<close> block from the answer of \<open>fetch\<close> on, with its \<open>catch\<close>.\<close>

fun after_fetch :: "jsstring \<Rightarrow> fetch_result \<Rightarrow> event list \<times> outcome" where
  "after_fetch canonical (Rejected message) = publish_failed message"
| "after_fetch canonical (Response ok (NotJson message)) = publish_failed message"
| "after_fetch canonical (Response ok (Json stringified result_id result_url)) =
     (if \<not> ok then publish_failed (js ''DEV.to API error: '' @ stringified)
      else
        ([ConsoleLog (check_mark @ js '' Successfully published to DEV.to!''),
          ConsoleLog (js ''   ID: '' @ result_id),
          ConsoleLog (js ''   URL: '' @ result_url),
          ConsoleLog [],
          ConsoleLog (js ''Next steps:''),
          ConsoleLog (js ''1. Update your blog post frontmatter with:''),
          ConsoleLog [],
          ConsoleLog (js ''crosspost:''),
          ConsoleLog (js ''  devTo:''),
          ConsoleLog (js ''    published: true''),
          ConsoleLog (js ''    id: '' @ result_id),
          ConsoleLog (js ''    url: '' @ result_url),
          ConsoleLog [],
          ConsoleLog (js ''2. For Medium, manually import from:''),
          ConsoleLog (js ''   '' @ canonical),
          ConsoleLog (js ''   Go to: https://medium.com/p/import'')],
         Returned))"

definition postPath_of :: "runtime \<Rightarrow> world \<Rightarrow> jsstring \<Rightarrow> jsstring" where
  "postPath_of rt w slug =
     path_join rt [dirname w, js ''..'', js ''src'', js ''content'', js ''blog'', slug @ js ''.md'']"

definition publishToDevTo :: "runtime \<Rightarrow> world \<Rightarrow> jsstring \<Rightarrow> event list \<times> outcome" where
  "publishToDevTo rt w slug =
     (if \<not> truthy (DEVTO_API_KEY w)
      then ([ConsoleError [Text (cross_mark @ js '' Error: DEVTO_API_KEY environment variable is required'')],
             ConsoleLog (js ''Get your API key from https://dev.to/settings/extensions'')],
            Exited 1)
      else
        (let postPath = postPath_of rt w slug
         in case files w postPath of
              None \<Rightarrow>
                ([ExistsSync postPath,
                  ConsoleError [Text (cross_mark @ js '' Error: Post not found at '' @ postPath)]],
                 Exited 1)
            | Some fileContent \<Rightarrow>
                (case matter rt fileContent of
                   None \<Rightarrow> ([ExistsSync postPath, ReadFileSync postPath], Threw)
                 | Some post \<Rightarrow>
                     if already_published (data post)
                     then ([ExistsSync postPath, ReadFileSync postPath,
                            ConsoleLog (warning_sign @ js ''  This post is already published to DEV.to''),
                            ConsoleLog (js ''   URL: '' @ template (already_published_url (data post))),
                            ConsoleLog (js ''   To update, use the update command instead.'')],
                           Returned)
                     else
                       (let art = article_of slug post;
                            req = request_of (the (DEVTO_API_KEY w)) art;
                            rest = after_fetch (canonical_url art) (fetch w req)
                        in ([ExistsSync postPath, ReadFileSync postPath,
                             ConsoleLog (memo_symbol @ js '' Publishing \"'' @ fm_title (data post) @ js ''\" to DEV.to...''),
                             ConsoleLog (js ''   Canonical URL: '' @ canonical_url art),
                             ConsoleLog (js ''   Tags: '' @ or_else (map_option (join (js '', '')) (a_tags art)) (js ''none'')),
                             ConsoleLog (js ''   Status: '' @ (if published art then js ''Published'' else js ''Draft'')),
                             Fetch req]
                            @ fst rest,
                            snd rest)))))"

definition publish_main :: "runtime \<Rightarrow> world \<Rightarrow> event list \<times> outcome" where
  "publish_main rt w =
     (let slug = at_index (process_argv w) 2
      in if \<not> truthy slug
         then ([ConsoleError [Text (js ''Usage: npm run publish:devto <post-slug>'')],
                ConsoleError [Text (js ''Example: npm run publish:devto hello-world'')]],
               Exited 1)
         else publishToDevTo rt w (the slug))"

section \<open>The tailored PDF generator\<close>

text \<open>The two glyphs of the messages, by the code units the source file holds.\<close>

definition page_glyph :: jsstring where
  "page_glyph = [0xF8FF, 0x00FC, 0x00EC, 0x00D1]"

definition cross_glyph :: jsstring where
  "cross_glyph = [0x201A, 0x00F9, 0x00E5]"

definition generatePDF :: "runtime \<Rightarrow> world \<Rightarrow> jsstring \<Rightarrow> jsstring \<Rightarrow> event list \<times> outcome" where
  "generatePDF rt w inputPath outputPath =
     (let start = [ConsoleLog (page_glyph @ js '' Generating tailored CV PDF...''),
                   ConsoleLog (js ''   Input: '' @ inputPath),
                   ExistsSync inputPath]
      in case files w inputPath of
           None \<Rightarrow>
             (start @ [ConsoleError [Text (cross_glyph @ js '' Error: File not found: '' @ inputPath)]],
              Exited 1)
         | Some markdown \<Rightarrow>
             (start @ fst (render_pdf rt w inputPath outputPath), snd (render_pdf rt w inputPath outputPath)))"

definition usage :: jsstring where
  "usage =
     join newline
       [[],
        js ''Tailored CV PDF Generator'',
        [],
        js ''Usage:'',
        js ''  npm run cv:pdf:tailored <markdown-file> [output-file]'',
        [],
        js ''Workflow:'',
        js ''  1. Export your CV to markdown:'',
        js ''     npm run cv:markdown > tailored-cv.md'',
        [],
        js ''  2. Edit the markdown file to tailor it for a specific job'',
        js ''     (use an LLM or edit manually)'',
        [],
        js ''  3. Generate the PDF:'',
        js ''     npm run cv:pdf:tailored tailored-cv.md'',
        [],
        js ''Examples:'',
        js ''  npm run cv:pdf:tailored tailored-cv.md'',
        js ''  npm run cv:pdf:tailored tailored-cv.md my-cv-for-google.pdf'',
        js ''    '']"

text \<open>\<open>inputPath.replace(/\.md$/, '.pdf')\<close>.\<close>

definition replace_md_suffix :: "jsstring \<Rightarrow> jsstring" where
  "replace_md_suffix p =
     (if suffix (js ''.md'') p then take (length p - 3) p @ js ''.pdf'' else p)"

definition tailored_main :: "runtime \<Rightarrow> world \<Rightarrow> event list \<times> outcome" where
  "tailored_main rt w =
     (let args = drop 2 (process_argv w)
      in case args of
           [] \<Rightarrow> ([ConsoleLog usage], Exited 0)
         | arg0 # others \<Rightarrow>
             (let inputPath = path_resolve rt arg0;
                  outputPath = (if truthy (at_index args 1) then path_resolve rt (the (at_index args 1))
                                else replace_md_suffix inputPath)
              in generatePDF rt w inputPath outputPath))"

section \<open>What the specification says, in its own words\<close>


text \<open>The CV document a run reads: the parsed text of the file at \<open>CV_JSON_PATH\<close>.\<close>

definition cv_document :: "runtime \<Rightarrow> world \<Rightarrow> CVData option" where
  "cv_document rt w = (case files w (CV_JSON_PATH rt w) of None \<Rightarrow> None | Some text \<Rightarrow> JSON_parse rt text)"

definition include_hidden_option :: "world \<Rightarrow> bool" where
  "include_hidden_option w = (js ''--include-hidden'' \<in> set (drop 2 (process_argv w)))"

text \<open>The requests a run has sent by HTTP POST, in order.\<close>

fun posted :: "event list \<Rightarrow> request list" where
  "posted [] = []"
| "posted (Fetch r # evs) = (if http_method r = js ''POST'' then r # posted evs else posted evs)"
| "posted (e # evs) = posted evs"

text \<open>A run reports a failure: it prints to standard error and exits with a status other than 0.\<close>

fun nonzero_exit :: "outcome \<Rightarrow> bool" where
  "nonzero_exit (Exited n) = (n \<noteq> 0)"
| "nonzero_exit _ = False"

definition reports_failure :: "event list \<times> outcome \<Rightarrow> bool" where
  "reports_failure r = (list_ex is_error_print (fst r) \<and> nonzero_exit (snd r))"

section \<open>Example inputs\<close>

definition example_experience :: experience_entry where
  "example_experience =
     \<lparr> exp_id = js ''e1'', exp_title = js ''Engineer'', company = js ''Acme'',
       exp_location = js ''Lisbon'', exp_startDate = js ''2023-01'', exp_endDate = None,
       exp_description = js ''Built things'', achievements = [js ''Shipped''],
       exp_skills = [js ''TypeScript''], exp_visibility = Some [js ''all''] \<rparr>"

definition example_cv :: CVData where
  "example_cv =
     \<lparr> personal = \<lparr> name = js ''Ann'', title = js ''Dev'', email = js ''a@b.c'',
                    location = js ''Lisbon'', linkedin = None, github = None \<rparr>,
       summary = js ''Hi'',
       experience = [example_experience],
       skills = \<lparr> technical = [], soft = None \<rparr>,
       education = [],
       projects = None,
       languages = None \<rparr>"

definition ascii_upper :: "jsstring \<Rightarrow> jsstring" where
  "ascii_upper s = map (\<lambda>c. if 97 \<le> c \<and> c \<le> 122 then c - 32 else c) s"

definition ascii_lower :: "jsstring \<Rightarrow> jsstring" where
  "ascii_lower s = map (\<lambda>c. if 65 \<le> c \<and> c \<le> 90 then c + 32 else c) s"

definition example_post :: post_file where
  "example_post =
     \<lparr> data = \<lparr> fm_title = js ''Hello'', fm_description = js ''First post'',
                fm_tags = Some [js ''a'', js ''b'', js ''c'', js ''d'', js ''e''],
                draft = None, canonicalUrl = None, crosspost = None \<rparr>,
       content = js ''Body'' \<rparr>"

definition example_post_published :: post_file where
  "example_post_published =
     example_post \<lparr> data := (data example_post)
       \<lparr> crosspost := Some \<lparr> devTo = Some \<lparr> devTo_published = Some True,
                                               devTo_url = Some (js ''https://dev.to/a'') \<rparr> \<rparr> \<rparr> \<rparr>"

text \<open>
  An instance of the runtime for the examples: paths joined with a slash, the CV file
  holding \<open>example_cv\<close>, a post file holding \<open>example_post\<close> unless its text is
  \<open>published\<close>, and the case mappings on ASCII letters.
\<close>

definition example_runtime :: runtime where
  "example_runtime =
     \<lparr> path_join = join (js ''/''),
       path_resolve = (\<lambda>p. p),
       JSON_parse = (\<lambda>text. Some example_cv),
       matter = (\<lambda>text. if text = js ''published'' then Some example_post_published else Some example_post),
       toUpperCase = ascii_upper,
       toLowerCase = ascii_lower,
       render_pdf = (\<lambda>w inputPath outputPath. ([], Returned)) \<rparr>"

text \<open>
  A world in which every path holds a file with the text \<open>fresh\<close>, the key is set and
  the article API answers with success; and variations of it.
\<close>

definition example_world :: world where
  "example_world =
     \<lparr> process_argv = [js ''node'', js ''script'', js ''hello''],
       DEVTO_API_KEY = Some (js ''k''),
       dirname = js ''d'',
       files = (\<lambda>p. Some (js ''fresh'')),
       fetch = (\<lambda>r. Response True (Json (js ''{}'') (js ''1'') (js ''https://dev.to/a''))) \<rparr>"

definition example_world_published :: world where
  "example_world_published = example_world \<lparr> files := (\<lambda>p. Some (js ''published'')) \<rparr>"

definition example_world_no_key :: world where
  "example_world_no_key = example_world \<lparr> DEVTO_API_KEY := None \<rparr>"

definition example_world_no_files :: world where
  "example_world_no_files = example_world \<lparr> files := (\<lambda>p. None) \<rparr>"

definition example_world_refused :: world where
  "example_world_refused =
     example_world \<lparr> fetch := (\<lambda>r. Response False (Json (js ''{error}'') (js ''undefined'') (js ''undefined''))) \<rparr>"

definition example_world_section :: world where
  "example_world_section = example_world \<lparr> process_argv := [js ''node'', js ''script'', js ''experience''] \<rparr>"

definition example_world_elsewhere :: world where
  "example_world_elsewhere =
     example_world \<lparr> process_argv := [js ''node'', js ''other'', js ''experience''],
                     DEVTO_API_KEY := None, dirname := js ''e'' \<rparr>"

section \<open>Lines of a joined text\<close>

lemma sublist_join: "x \<in> set xs \<Longrightarrow> sublist x (join sep xs)"
proof (induction sep xs rule: join.induct)
  case (1 sep)
  then show ?case by simp
next
  case (2 sep y)
  then show ?case by simp
next
  case (3 sep y z zs)
  show ?case
  proof (cases "x = y")
    case True
    then show ?thesis by simp
  next
    case False
    with 3 have "sublist x (join sep (z # zs))" by simp
    also have "sublist (join sep (z # zs)) ((y @ sep) @ join sep (z # zs))"
      by (rule sublist_append_leftI)
    finally show ?thesis by simp
  qed
qed

lemma entry_lines_in_markdown:
  assumes "exp \<in> set (experience cv)" and "isVisible (exp_visibility exp) includeHidden"
    and "l \<in> set (experience_entry_lines exp)"
  shows "l \<in> set (markdown_lines cv includeHidden)"
proof -
  from assms(1,2) have "exp \<in> set (visibleExperience cv includeHidden)"
    by (simp add: visibleExperience_def)
  with assms(3) have "l \<in> set (experience_lines cv includeHidden)"
    unfolding experience_lines_def by auto
  then show ?thesis by (simp add: markdown_lines_def)
qed

lemma heading_in_entry_lines:
  "js ''### '' @ exp_title exp @ js '' at '' @ company exp \<in> set (experience_entry_lines exp)"
  by (simp add: experience_entry_lines_def Let_def)

lemma achievement_in_entry_lines:
  "a \<in> set (achievements exp) \<Longrightarrow> js ''- '' @ a \<in> set (experience_entry_lines exp)"
  by (auto simp add: experience_entry_lines_def Let_def)

lemma sublist_of_line:
  assumes "sublist x l" and "l \<in> set (markdown_lines cv includeHidden)"
  shows "sublist x (exportToMarkdown cv includeHidden)"
proof -
  from assms(2) have "sublist l (exportToMarkdown cv includeHidden)"
    unfolding exportToMarkdown_def by (rule sublist_join)
  with assms(1) show ?thesis by (rule sublist_order.order_trans)
qed

section \<open>The Markdown export keeps the visible experience\<close>

text \<open>
  Claim C1. For every CV document and every setting of the include-hidden flag, the
  text returned by \<open>exportToMarkdown\<close> contains, as a contiguous run of code units, the
  title, the company and every achievement of every experience entry that
  \<open>isVisible\<close> accepts.
\<close>

theorem exportToMarkdown_keeps_visible_experience:
  assumes "exp \<in> set (experience cv)" and "isVisible (exp_visibility exp) includeHidden"
  shows "sublist (exp_title exp) (exportToMarkdown cv includeHidden)
       \<and> sublist (company exp) (exportToMarkdown cv includeHidden)
       \<and> (\<forall>a \<in> set (achievements exp). sublist a (exportToMarkdown cv includeHidden))"
proof (intro conjI ballI)
  let ?h = "js ''### '' @ exp_title exp @ js '' at '' @ company exp"
  have h: "?h \<in> set (markdown_lines cv includeHidden)"
    using assms heading_in_entry_lines by (rule entry_lines_in_markdown)
  have "sublist (exp_title exp) ?h" by (rule sublist_appendI)
  then show "sublist (exp_title exp) (exportToMarkdown cv includeHidden)"
    using h by (rule sublist_of_line)
  have "sublist (company exp) ((js ''### '' @ exp_title exp @ js '' at '') @ company exp @ [])"
    by (rule sublist_appendI)
  then have "sublist (company exp) ?h" by simp
  then show "sublist (company exp) (exportToMarkdown cv includeHidden)"
    using h by (rule sublist_of_line)
next
  fix a assume "a \<in> set (achievements exp)"
  then have "js ''- '' @ a \<in> set (experience_entry_lines exp)"
    by (rule achievement_in_entry_lines)
  with assms have l: "js ''- '' @ a \<in> set (markdown_lines cv includeHidden)"
    by (rule entry_lines_in_markdown)
  have "sublist a (js ''- '' @ a @ [])" by (rule sublist_appendI)
  then have "sublist a (js ''- '' @ a)" by simp
  then show "sublist a (exportToMarkdown cv includeHidden)"
    using l by (rule sublist_of_line)
qed

theorem exportToMarkdown_keeps_visible_experience_witness:
  "example_experience \<in> set (experience example_cv)
   \<and> isVisible (exp_visibility example_experience) False
   \<and> sublist (js ''Engineer'') (exportToMarkdown example_cv False)
   \<and> sublist (js ''Acme'') (exportToMarkdown example_cv False)
   \<and> sublist (js ''Shipped'') (exportToMarkdown example_cv False)"
proof -
  have m: "example_experience \<in> set (experience example_cv)"
    by (simp add: example_cv_def)
  have v: "isVisible (exp_visibility example_experience) False"
    by (simp add: example_experience_def)
  show ?thesis
    using m v exportToMarkdown_keeps_visible_experience [OF m v]
    by (simp add: example_experience_def)
qed

section \<open>Which entries the Markdown export includes\<close>




section \<open>The truncation helper of the LinkedIn export\<close>

text \<open>
  Claim C8. For every text, limit and label, \<open>truncateWithWarning\<close> returns the text
  it was given; it writes to standard error exactly when the text is longer than the
  limit, and does nothing else. So the headline (limit 220), the about section (limit
  2600) and the text of each role (limit 2000) are printed in full.
\<close>

theorem truncateWithWarning_never_shortens:
  "fst (truncateWithWarning text limit label) = text
   \<and> (snd (truncateWithWarning text limit label) \<noteq> []) = (limit < int (length text))
   \<and> list_all is_error_print (snd (truncateWithWarning text limit label))
   \<and> fst (generateHeadline cv) = headline_text cv
   \<and> fst (generateAbout cv) = join newline (about_lines cv)
   \<and> fst (experience_turn upper exp) =
       [double_rule 50, upper (exp_title exp),
        company exp @ js '' '' @ bullet @ js '' '' @ exp_location exp,
        light_rule 50, [], role_text exp, []]"
  by (simp add: truncateWithWarning_def generateHeadline_def generateAbout_def experience_turn_def)

section \<open>The date formatter of the Markdown exporter\<close>

lemma split_no_separator: "c \<notin> set s \<Longrightarrow> split c s = [s]"
  by (induction s) auto

lemma split_at_separator: "c \<notin> set s \<Longrightarrow> c \<notin> set t \<Longrightarrow> split c (s @ c # t) = [s, t]"
  by (induction s) (auto simp: split_no_separator)

lemma digit_char_range:
  assumes "d < 10"
  shows "digit_char d \<in> {48, 49, 50, 51, 52, 53, 54, 55, 56, 57}"
proof -
  from assms have "d \<in> {0, 1, 2, 3, 4, 5, 6, 7, 8, 9}" by auto
  then show ?thesis by (auto simp: digit_char_def)
qed

lemma digit_char_value:
  assumes "d < 10"
  shows "digit_value (digit_char d) = Some d"
proof -
  from assms have "d \<in> {0, 1, 2, 3, 4, 5, 6, 7, 8, 9}" by auto
  then show ?thesis by (auto simp: digit_char_def digit_value_def)
qed

lemma digit_char_plain:
  assumes "d < 10"
  shows "\<not> is_white_space (digit_char d)" and "digit_char d \<noteq> 45" and "digit_char d \<noteq> 43"
    and "digit_char d \<noteq> 120" and "digit_char d \<noteq> 88"
  using digit_char_range [OF assms] by (auto simp: is_white_space_def)

lemma digit_char_is_digit: "d < 10 \<Longrightarrow> is_radix_digit 10 (digit_char d)"
  by (simp add: is_radix_digit_def digit_char_value)

lemma parseInt_four_digits:
  assumes "a < 10" "b < 10" "c < 10" "d < 10"
  shows "parseInt [digit_char a, digit_char b, digit_char c, digit_char d]
         = Some (int (1000 * a + 100 * b + 10 * c + d))"
  using assms
  by (simp add: parseInt_def Let_def js_def digit_char_plain digit_char_is_digit
      digits_value_def digit_char_value)

lemma parseInt_two_digits:
  assumes "e < 10" "f < 10"
  shows "parseInt [digit_char e, digit_char f] = Some (int (10 * e + f))"
  using assms
  by (simp add: parseInt_def Let_def js_def digit_char_plain digit_char_is_digit
      digits_value_def digit_char_value)

lemma newDate_plain:
  assumes "100 \<le> y" "y \<le> 9999" "1 \<le> m" "m \<le> 12"
  shows "newDate (Some (int y)) (Some (int m - 1)) = Some (int y, m - 1)"
proof -
  have d: "(int m - 1) div 12 = 0" and r: "(int m - 1) mod 12 = int m - 1"
    using assms by auto
  show ?thesis using assms by (simp add: newDate_def Let_def d r)
qed

lemma toLocaleDateString_positive:
  "0 < y \<Longrightarrow> toLocaleDateString (Some (int y, mn)) = month_short mn @ js '' '' @ dec_nat y"
  by (simp add: toLocaleDateString_def dec_int_def del: dec_nat.simps)

lemma formatDate_year_month:
  assumes "a < 10" "b < 10" "c < 10" "d < 10" "e < 10" "f < 10"
    and "100 \<le> 1000 * a + 100 * b + 10 * c + d"
    and "1 \<le> 10 * e + f" "10 * e + f \<le> 12"
  shows "formatDate (Some ([digit_char a, digit_char b, digit_char c, digit_char d] @ js ''-''
                           @ [digit_char e, digit_char f]))
         = month_short (10 * e + f - 1) @ js '' '' @ dec_nat (1000 * a + 100 * b + 10 * c + d)"
proof -
  let ?y = "[digit_char a, digit_char b, digit_char c, digit_char d]"
  let ?m = "[digit_char e, digit_char f]"
  have "split 45 (?y @ 45 # ?m) = [?y, ?m]"
    using assms(1-6) by (intro split_at_separator) (simp_all add: digit_char_plain)
  then have s: "split 45 (?y @ js ''-'' @ ?m) = [?y, ?m]" by (simp add: js_def)
  have y: "1000 * a + 100 * b + 10 * c + d \<le> 9999" using assms(1-4) by simp
  have n: "newDate (parseInt ?y) (map_option (\<lambda>m. m - 1) (parseInt ?m))
           = Some (int (1000 * a + 100 * b + 10 * c + d), 10 * e + f - 1)"
    unfolding parseInt_four_digits [OF assms(1-4)] parseInt_two_digits [OF assms(5,6)]
    using newDate_plain [OF assms(7) y assms(8,9)] by simp
  have "formatDate (Some (?y @ js ''-'' @ ?m))
        = toLocaleDateString (newDate (parseInt ?y) (map_option (\<lambda>m. m - 1) (parseInt ?m)))"
    unfolding formatDate.simps s by (simp add: Let_def)
  also have "\<dots> = month_short (10 * e + f - 1) @ js '' '' @ dec_nat (1000 * a + 100 * b + 10 * c + d)"
    unfolding n using assms(7) by (intro toLocaleDateString_positive) arith
  finally show ?thesis .
qed

lemma formatDate_no_separator:
  assumes "s \<noteq> []" "45 \<notin> set s"
  shows "formatDate (Some s) = s"
  using assms by (simp add: split_no_separator)

text \<open>
  Claim C10, as the code has it. \<open>formatDate\<close> maps \<open>null\<close> and the empty string to
  \<open>Present\<close>; a string of four digits, a hyphen and two digits, whose year is at least
  0100 and whose month is from 01 to 12, to the abbreviated English name of the month, a
  space and the year in decimal without leading zeros; and a non-empty string without a
  hyphen to itself.
\<close>

theorem formatDate_cases:
  "formatDate None = js ''Present''
   \<and> formatDate (Some []) = js ''Present''
   \<and> (a < 10 \<and> b < 10 \<and> c < 10 \<and> d < 10 \<and> e < 10 \<and> f < 10
        \<and> 100 \<le> 1000 * a + 100 * b + 10 * c + d \<and> 1 \<le> 10 * e + f \<and> 10 * e + f \<le> 12
      \<longrightarrow> formatDate (Some ([digit_char a, digit_char b, digit_char c, digit_char d] @ js ''-''
                              @ [digit_char e, digit_char f]))
          = month_short (10 * e + f - 1) @ js '' '' @ dec_nat (1000 * a + 100 * b + 10 * c + d))
   \<and> (s \<noteq> [] \<and> 45 \<notin> set s \<longrightarrow> formatDate (Some s) = s)"
  using formatDate_year_month [of a b c d e f] formatDate_no_separator [of s]
  by simp

theorem formatDate_cases_witness:
  "formatDate (Some (js ''2023-01'')) = js ''Jan 2023'' \<and> formatDate (Some (js ''2023'')) = js ''2023''"
proof -
  have "js ''2023-01'' = [digit_char 2, digit_char 0, digit_char 2, digit_char 3] @ js ''-'' @ [digit_char 0, digit_char 1]"
    by (simp add: js_def digit_char_def)
  moreover have "month_short (10 * 0 + 1 - 1) @ js '' '' @ dec_nat (1000 * 2 + 100 * 0 + 10 * 2 + 3) = js ''Jan 2023''"
    by (simp add: month_short_def js_def digit_char_def)
  moreover have "js ''2023'' \<noteq> [] \<and> 45 \<notin> set (js ''2023'')" by (simp add: js_def)
  ultimately show ?thesis
    using formatDate_cases [of 2 0 2 3 0 1 "js ''2023''"] by simp
qed

text \<open>
  The claim as worded fails at the empty string, which has no hyphen and is mapped to
  \<open>Present\<close>, and at a year below 0100, which \<open>Date\<close> reads as a year of the twentieth
  century.
\<close>

theorem formatDate_empty_or_early_year:
  "\<not> (45 \<notin> set (js '''') \<longrightarrow> formatDate (Some (js '''')) = js '''')
   \<and> formatDate (Some (js ''0050-01'')) = js ''Jan 1950''"
  by (simp add: js_def parseInt_def newDate_def toLocaleDateString_def Let_def is_white_space_def
      is_radix_digit_def digit_value_def digits_value_def month_short_def dec_int_def digit_char_def)

section \<open>The runs of the publisher\<close>

lemma posted_append: "posted (xs @ ys) = posted xs @ posted ys"
  by (induction xs rule: posted.induct) simp_all

lemma after_fetch_quiet:
  "posted (fst (after_fetch c r)) = []" and "\<not> list_ex is_file_access (fst (after_fetch c r))"
  by (induction c r rule: after_fetch.induct) (simp_all add: publish_failed_def)

lemma publishToDevTo_fresh:
  assumes "truthy (DEVTO_API_KEY w)" and "files w (postPath_of rt w slug) = Some fileContent"
    and "matter rt fileContent = Some post" and "\<not> already_published (data post)"
  shows "publishToDevTo rt w slug =
     (let art = article_of slug post;
          req = request_of (the (DEVTO_API_KEY w)) art;
          rest = after_fetch (canonical_url art) (fetch w req)
      in ([ExistsSync (postPath_of rt w slug), ReadFileSync (postPath_of rt w slug),
           ConsoleLog (memo_symbol @ js '' Publishing \"'' @ fm_title (data post) @ js ''\" to DEV.to...''),
           ConsoleLog (js ''   Canonical URL: '' @ canonical_url art),
           ConsoleLog (js ''   Tags: '' @ or_else (map_option (join (js '', '')) (a_tags art)) (js ''none'')),
           ConsoleLog (js ''   Status: '' @ (if published art then js ''Published'' else js ''Draft'')),
           Fetch req]
          @ fst rest,
          snd rest))"
  using assms by (simp add: publishToDevTo_def Let_def)

lemma posted_fresh:
  assumes "truthy (DEVTO_API_KEY w)" and "files w (postPath_of rt w slug) = Some fileContent"
    and "matter rt fileContent = Some post" and "\<not> already_published (data post)"
  shows "posted (fst (publishToDevTo rt w slug))
         = [request_of (the (DEVTO_API_KEY w)) (article_of slug post)]"
  unfolding publishToDevTo_fresh [OF assms]
  by (simp add: Let_def posted_append after_fetch_quiet request_of_def)

lemma posted_subset:
  assumes "files w (postPath_of rt w slug) = Some fileContent" and "matter rt fileContent = Some post"
  shows "set (posted (fst (publishToDevTo rt w slug)))
         \<subseteq> {request_of (the (DEVTO_API_KEY w)) (article_of slug post)}"
proof (cases "truthy (DEVTO_API_KEY w) \<and> \<not> already_published (data post)")
  case True
  then show ?thesis using posted_fresh [OF _ assms] by simp
next
  case False
  then show ?thesis using assms by (auto simp: publishToDevTo_def Let_def)
qed

lemma after_fetch_refused:
  "reports_failure (after_fetch c (Response False b))"
  by (cases b) (simp_all add: publish_failed_def reports_failure_def)

lemma publishToDevTo_missing_post:
  "files w (postPath_of rt w slug) = None \<Longrightarrow> reports_failure (publishToDevTo rt w slug)"
  by (simp add: publishToDevTo_def reports_failure_def Let_def)

lemma publishToDevTo_refused:
  assumes "truthy (DEVTO_API_KEY w)" and "files w (postPath_of rt w slug) = Some fileContent"
    and "matter rt fileContent = Some post" and "\<not> already_published (data post)"
    and "fetch w (request_of (the (DEVTO_API_KEY w)) (article_of slug post)) = Response False b"
  shows "reports_failure (publishToDevTo rt w slug)"
proof -
  have "reports_failure (after_fetch (canonical_url (article_of slug post)) (Response False b))"
    by (rule after_fetch_refused)
  then show ?thesis
    unfolding publishToDevTo_fresh [OF assms(1-4)] Let_def assms(5)
    by (simp add: reports_failure_def)
qed

lemma example_fresh:
  "truthy (DEVTO_API_KEY example_world)"
  "files example_world (postPath_of example_runtime example_world (js ''hello'')) = Some (js ''fresh'')"
  "matter example_runtime (js ''fresh'') = Some example_post"
  "\<not> already_published (data example_post)"
  by (simp_all add: example_world_def example_runtime_def example_post_def already_published_def js_def)

lemma example_published:
  "files example_world_published (postPath_of example_runtime example_world_published (js ''hello''))
   = Some (js ''published'')"
  "matter example_runtime (js ''published'') = Some example_post_published"
  "truthy (DEVTO_API_KEY example_world_published)"
  by (simp_all add: example_world_published_def example_world_def example_runtime_def js_def)

text \<open>
  Claim C3. When the environment variable \<open>DEVTO_API_KEY\<close> is unset (or empty),
  \<open>publishToDevTo\<close> prints an error and exits with status 1, and its run holds no network
  call and no access to a file; the same holds of the whole script.
\<close>

theorem publishToDevTo_requires_key_first:
  assumes "\<not> truthy (DEVTO_API_KEY w)"
  shows "snd (publishToDevTo rt w slug) = Exited 1
       \<and> list_ex is_error_print (fst (publishToDevTo rt w slug))
       \<and> \<not> list_ex is_network (fst (publishToDevTo rt w slug))
       \<and> \<not> list_ex is_file_access (fst (publishToDevTo rt w slug))
       \<and> reports_failure (publish_main rt w)
       \<and> \<not> list_ex is_network (fst (publish_main rt w))
       \<and> \<not> list_ex is_file_access (fst (publish_main rt w))"
  using assms by (simp add: publishToDevTo_def publish_main_def reports_failure_def Let_def)

theorem publishToDevTo_requires_key_first_witness:
  "DEVTO_API_KEY example_world_no_key = None
   \<and> snd (publishToDevTo example_runtime example_world_no_key (js ''hello'')) = Exited 1
   \<and> reports_failure (publish_main example_runtime example_world_no_key)"
proof -
  have k: "DEVTO_API_KEY example_world_no_key = None"
    by (simp add: example_world_no_key_def)
  then have t: "\<not> truthy (DEVTO_API_KEY example_world_no_key)" by simp
  show ?thesis using k publishToDevTo_requires_key_first [OF t, of example_runtime "js ''hello''"] by simp
qed

text \<open>
  Claim C2. For a post file whose frontmatter has \<open>crosspost.devTo.published\<close> true,
  no run of \<open>publishToDevTo\<close> sends an HTTP POST or any other request, whatever the rest
  of the environment; when the API key is set the function returns (it does not exit).
\<close>

theorem publishToDevTo_skips_published_post:
  assumes "files w (postPath_of rt w slug) = Some fileContent" and "matter rt fileContent = Some post"
    and "crosspost (data post) = Some c" and "devTo c = Some d" and "devTo_published d = Some True"
  shows "posted (fst (publishToDevTo rt w slug)) = []
       \<and> \<not> list_ex is_network (fst (publishToDevTo rt w slug))
       \<and> (truthy (DEVTO_API_KEY w) \<longrightarrow> snd (publishToDevTo rt w slug) = Returned)"
  using assms by (simp add: publishToDevTo_def already_published_def Let_def)

theorem publishToDevTo_skips_published_post_witness:
  "devTo_published \<lparr> devTo_published = Some True, devTo_url = Some (js ''https://dev.to/a'') \<rparr> = Some True
   \<and> posted (fst (publishToDevTo example_runtime example_world_published (js ''hello''))) = []
   \<and> snd (publishToDevTo example_runtime example_world_published (js ''hello'')) = Returned"
proof -
  let ?d = "\<lparr> devTo_published = Some True, devTo_url = Some (js ''https://dev.to/a'') \<rparr>"
  have c: "crosspost (data example_post_published) = Some \<lparr> devTo = Some ?d \<rparr>"
    by (simp add: example_post_published_def)
  have d: "devTo \<lparr> devTo = Some ?d \<rparr> = Some ?d" by simp
  have p: "devTo_published ?d = Some True" by simp
  show ?thesis
    using p example_published(3) publishToDevTo_skips_published_post [OF example_published(1,2) c d p]
    by simp
qed

text \<open>
  Claim C4, as the code has it. For a post file not already marked as published to the
  platform, and with the API key set, \<open>publishToDevTo\<close> sends exactly one HTTP POST, to
  the article API, whose article has the fields \<open>title\<close>, \<open>body_markdown\<close>,
  \<open>published\<close>, \<open>tags\<close>, \<open>canonical_url\<close> and \<open>description\<close>: title and
  description of the frontmatter, the body of the post, the negation of the draft flag,
  the first four tags of the frontmatter (no field without tags), and the frontmatter's
  \<open>canonicalUrl\<close> or, when it is absent or empty, the site URL, \<open>/blog/\<close> and the slug.
\<close>

theorem publishToDevTo_posts_article_once:
  assumes "truthy (DEVTO_API_KEY w)" and "files w (postPath_of rt w slug) = Some fileContent"
    and "matter rt fileContent = Some post" and "\<not> already_published (data post)"
  shows "posted (fst (publishToDevTo rt w slug)) =
     [\<lparr> url = DEVTO_API_URL,
        http_method = js ''POST'',
        headers = [(js ''Content-Type'', js ''application/json''), (js ''api-key'', the (DEVTO_API_KEY w))],
        body = \<lparr> a_title = fm_title (data post),
                 body_markdown = content post,
                 published = (\<not> (draft (data post) = Some True)),
                 a_tags = map_option (take 4) (fm_tags (data post)),
                 canonical_url = (if truthy (canonicalUrl (data post)) then the (canonicalUrl (data post))
                                  else SITE_URL @ js ''/blog/'' @ slug),
                 a_description = fm_description (data post) \<rparr> \<rparr>]"
proof -
  have "canonicalUrl_of slug (data post)
        = (if truthy (canonicalUrl (data post)) then the (canonicalUrl (data post))
           else SITE_URL @ js ''/blog/'' @ slug)"
    by (cases "canonicalUrl (data post)") (simp_all add: canonicalUrl_of_def)
  then show ?thesis
    unfolding posted_fresh [OF assms] by (simp add: request_of_def article_of_def)
qed

theorem publishToDevTo_posts_article_once_witness:
  "truthy (DEVTO_API_KEY example_world) \<and> \<not> already_published (data example_post)
   \<and> map (canonical_url \<circ> body) (posted (fst (publishToDevTo example_runtime example_world (js ''hello''))))
     = [js ''https://camarneiro.com/blog/hello'']"
proof -
  have "canonicalUrl (data example_post) = None" by (simp add: example_post_def)
  then show ?thesis
    using example_fresh(1,4) publishToDevTo_posts_article_once [OF example_fresh]
    by (simp add: SITE_URL_def js_def)
qed

text \<open>
  The claim as worded, for every post file, fails at a post already marked as
  published: with the key set and the file present, nothing is posted.
\<close>

theorem published_post_is_not_posted:
  "length (posted (fst (publishToDevTo example_runtime example_world_published (js ''hello'')))) \<noteq> 1"
  by (simp add: publishToDevTo_def example_published Let_def example_post_published_def already_published_def)

text \<open>
  Claim C9. For every post file, every request that \<open>publishToDevTo\<close> posts carries as
  \<open>tags\<close> the first four elements of the frontmatter's tags, so at most four, and no
  \<open>tags\<close> field when the frontmatter has none.
\<close>

theorem submitted_tags_first_four:
  assumes "files w (postPath_of rt w slug) = Some fileContent" and "matter rt fileContent = Some post"
  shows "\<forall>r \<in> set (posted (fst (publishToDevTo rt w slug))).
           a_tags (body r) = map_option (take 4) (fm_tags (data post))
           \<and> (case a_tags (body r) of None \<Rightarrow> fm_tags (data post) = None | Some ts \<Rightarrow> length ts \<le> 4)"
proof
  fix r assume "r \<in> set (posted (fst (publishToDevTo rt w slug)))"
  with posted_subset [OF assms] have "r = request_of (the (DEVTO_API_KEY w)) (article_of slug post)"
    by auto
  then show "a_tags (body r) = map_option (take 4) (fm_tags (data post))
           \<and> (case a_tags (body r) of None \<Rightarrow> fm_tags (data post) = None | Some ts \<Rightarrow> length ts \<le> 4)"
    by (cases "fm_tags (data post)") (simp_all add: request_of_def article_of_def)
qed

theorem submitted_tags_first_four_witness:
  "map (a_tags \<circ> body) (posted (fst (publishToDevTo example_runtime example_world (js ''hello''))))
   = [Some [js ''a'', js ''b'', js ''c'', js ''d'']]"
proof -
  have p: "posted (fst (publishToDevTo example_runtime example_world (js ''hello'')))
        = [request_of (the (DEVTO_API_KEY example_world)) (article_of (js ''hello'') example_post)]"
    using example_fresh by (rule posted_fresh)
  have "fm_tags (data example_post) = Some [js ''a'', js ''b'', js ''c'', js ''d'', js ''e'']"
    by (simp add: example_post_def)
  then show ?thesis
    using submitted_tags_first_four [OF example_fresh(2,3)] unfolding p by simp
qed

section \<open>Failures are reported\<close>

text \<open>
  Claim C6. A run reports a failure, that is, prints to standard error and exits with a
  status other than 0, when the CV file is missing (both exporters), when the post file
  is missing (the publisher, as a function and as a script called with a slug), when the
  Markdown file is missing (the tailored PDF generator, as a function and as a script
  called with a file argument), and when the article API answers the POST with a
  response that is not ok.
\<close>

theorem missing_input_or_refused_post_reports_failure:
  "(files w (CV_JSON_PATH rt w) = None
      \<longrightarrow> reports_failure (markdown_main rt w) \<and> reports_failure (linkedin_main rt w))
   \<and> (files w (postPath_of rt w slug) = None \<longrightarrow> reports_failure (publishToDevTo rt w slug))
   \<and> (at_index (process_argv w) 2 = Some slug \<and> slug \<noteq> [] \<and> files w (postPath_of rt w slug) = None
      \<longrightarrow> reports_failure (publish_main rt w))
   \<and> (files w inputPath = None \<longrightarrow> reports_failure (generatePDF rt w inputPath outputPath))
   \<and> (drop 2 (process_argv w) = arg # args \<and> files w (path_resolve rt arg) = None
      \<longrightarrow> reports_failure (tailored_main rt w))
   \<and> (truthy (DEVTO_API_KEY w) \<and> files w (postPath_of rt w slug) = Some fileContent
        \<and> matter rt fileContent = Some post \<and> \<not> already_published (data post)
        \<and> fetch w (request_of (the (DEVTO_API_KEY w)) (article_of slug post)) = Response False b
      \<longrightarrow> reports_failure (publishToDevTo rt w slug))"
proof (intro conjI impI)
  assume "files w (CV_JSON_PATH rt w) = None"
  then show "reports_failure (markdown_main rt w)" and "reports_failure (linkedin_main rt w)"
    by (simp_all add: markdown_main_def linkedin_main_def reports_failure_def Let_def)
next
  assume "files w (postPath_of rt w slug) = None"
  then show "reports_failure (publishToDevTo rt w slug)" by (rule publishToDevTo_missing_post)
next
  assume "at_index (process_argv w) 2 = Some slug \<and> slug \<noteq> [] \<and> files w (postPath_of rt w slug) = None"
  then show "reports_failure (publish_main rt w)"
    by (simp add: publish_main_def Let_def publishToDevTo_missing_post)
next
  assume "files w inputPath = None"
  then show "reports_failure (generatePDF rt w inputPath outputPath)"
    by (simp add: generatePDF_def reports_failure_def Let_def)
next
  assume "drop 2 (process_argv w) = arg # args \<and> files w (path_resolve rt arg) = None"
  then show "reports_failure (tailored_main rt w)"
    by (simp add: tailored_main_def generatePDF_def reports_failure_def Let_def)
next
  assume "truthy (DEVTO_API_KEY w) \<and> files w (postPath_of rt w slug) = Some fileContent
        \<and> matter rt fileContent = Some post \<and> \<not> already_published (data post)
        \<and> fetch w (request_of (the (DEVTO_API_KEY w)) (article_of slug post)) = Response False b"
  then show "reports_failure (publishToDevTo rt w slug)"
    using publishToDevTo_refused by blast
qed

theorem missing_input_or_refused_post_reports_failure_witness:
  "files example_world_no_files (CV_JSON_PATH example_runtime example_world_no_files) = None
   \<and> reports_failure (markdown_main example_runtime example_world_no_files)
   \<and> reports_failure (linkedin_main example_runtime example_world_no_files)
   \<and> reports_failure (publishToDevTo example_runtime example_world_no_files (js ''hello''))
   \<and> reports_failure (publish_main example_runtime example_world_no_files)
   \<and> reports_failure (generatePDF example_runtime example_world_no_files (js ''hello'') (js ''out''))
   \<and> reports_failure (tailored_main example_runtime example_world_no_files)
   \<and> fetch example_world_refused
        (request_of (the (DEVTO_API_KEY example_world_refused)) (article_of (js ''hello'') example_post))
      = Response False (Json (js ''{error}'') (js ''undefined'') (js ''undefined''))
   \<and> reports_failure (publishToDevTo example_runtime example_world_refused (js ''hello''))"
proof -
  have n: "files example_world_no_files p = None" for p
    by (simp add: example_world_no_files_def)
  have a: "at_index (process_argv example_world_no_files) 2 = Some (js ''hello'')" "js ''hello'' \<noteq> []"
    "drop 2 (process_argv example_world_no_files) = js ''hello'' # []"
    "path_resolve example_runtime (js ''hello'') = js ''hello''"
    by (simp_all add: example_world_no_files_def example_world_def example_runtime_def js_def numeral_2_eq_2)
  have r: "truthy (DEVTO_API_KEY example_world_refused)"
    "files example_world_refused (postPath_of example_runtime example_world_refused (js ''hello'')) = Some (js ''fresh'')"
    "matter example_runtime (js ''fresh'') = Some example_post"
    "\<not> already_published (data example_post)"
    "fetch example_world_refused
        (request_of (the (DEVTO_API_KEY example_world_refused)) (article_of (js ''hello'') example_post))
      = Response False (Json (js ''{error}'') (js ''undefined'') (js ''undefined''))"
    by (simp_all add: example_world_refused_def example_world_def example_runtime_def example_post_def
        already_published_def js_def)
  show ?thesis
    using n a r
      missing_input_or_refused_post_reports_failure [where w = example_world_no_files and rt = example_runtime and slug = "js ''hello''"
            and inputPath = "js ''hello''" and outputPath = "js ''out''" and arg = "js ''hello''"
            and args = "[]"]
      missing_input_or_refused_post_reports_failure [where w = example_world_refused and rt = example_runtime and slug = "js ''hello''"
            and fileContent = "js ''fresh''" and post = example_post
            and b = "Json (js ''{error}'') (js ''undefined'') (js ''undefined'')"]
    by simp
qed

section \<open>The exporters depend on the document and the options only\<close>

lemma markdown_main_document:
  assumes "cv_document rt w = Some cv"
  shows "markdown_main rt w =
           ([ExistsSync (CV_JSON_PATH rt w), ReadFileSync (CV_JSON_PATH rt w),
             StdoutWrite (exportToMarkdown cv (include_hidden_option w))], Returned)"
  using assms
  by (auto simp: cv_document_def markdown_main_def include_hidden_option_def Let_def
      split: option.splits)

lemma linkedin_main_document:
  assumes "cv_document rt w = Some cv"
  shows "linkedin_main rt w =
           ([ExistsSync (CV_JSON_PATH rt w), ReadFileSync (CV_JSON_PATH rt w)] @ banner
            @ linkedin_sections (toUpperCase rt) cv (linkedin_section rt w) @ tip, Returned)"
  using assms
  by (auto simp: cv_document_def linkedin_main_def Let_def split: option.splits)

lemma markdown_main_text:
  assumes "cv_document rt w = Some cv"
  shows "stdout_text (fst (markdown_main rt w)) = exportToMarkdown cv (include_hidden_option w)"
    and "stderr_text (fst (markdown_main rt w)) = []"
  unfolding markdown_main_document [OF assms] by (simp_all add: stdout_text_def stderr_text_def)

lemma linkedin_main_text:
  assumes "cv_document rt w = Some cv"
  shows "stdout_text (fst (linkedin_main rt w))
         = stdout_text (banner @ linkedin_sections (toUpperCase rt) cv (linkedin_section rt w) @ tip)"
    and "stderr_text (fst (linkedin_main rt w))
         = stderr_text (linkedin_sections (toUpperCase rt) cv (linkedin_section rt w))"
  unfolding linkedin_main_document [OF assms]
  by (simp_all add: stdout_text_def stderr_text_def banner_def tip_def)

text \<open>
  Claim C7. Two runs of the Markdown exporter that read the same CV document with the
  same include-hidden option write the same text to standard output, the value of
  \<open>exportToMarkdown\<close> on the document and the option; two runs of the LinkedIn
  exporter that read the same document with the same section selector write the same
  text to standard output, a function of the document and the selector, and the same
  warnings to standard error. Nothing else of the environment (the other arguments, the
  directory, the environment variables, the network) has an influence.
\<close>

theorem exporters_deterministic:
  "(cv_document rt w1 = Some cv \<and> cv_document rt w2 = Some cv
      \<and> include_hidden_option w1 = include_hidden_option w2
     \<longrightarrow> stdout_text (fst (markdown_main rt w1)) = stdout_text (fst (markdown_main rt w2))
        \<and> stdout_text (fst (markdown_main rt w1)) = exportToMarkdown cv (include_hidden_option w1)
        \<and> stderr_text (fst (markdown_main rt w1)) = stderr_text (fst (markdown_main rt w2)))
   \<and> (cv_document rt w1 = Some cv \<and> cv_document rt w2 = Some cv
      \<and> linkedin_section rt w1 = linkedin_section rt w2
     \<longrightarrow> stdout_text (fst (linkedin_main rt w1)) = stdout_text (fst (linkedin_main rt w2))
        \<and> stdout_text (fst (linkedin_main rt w1))
          = stdout_text (banner @ linkedin_sections (toUpperCase rt) cv (linkedin_section rt w1) @ tip)
        \<and> stderr_text (fst (linkedin_main rt w1)) = stderr_text (fst (linkedin_main rt w2)))"
  by (simp add: markdown_main_text linkedin_main_text)

theorem exporters_deterministic_witness:
  "cv_document example_runtime example_world_section = Some example_cv
   \<and> cv_document example_runtime example_world_elsewhere = Some example_cv
   \<and> example_world_section \<noteq> example_world_elsewhere
   \<and> stdout_text (fst (markdown_main example_runtime example_world_section))
     = stdout_text (fst (markdown_main example_runtime example_world_elsewhere))
   \<and> stdout_text (fst (linkedin_main example_runtime example_world_section))
     = stdout_text (fst (linkedin_main example_runtime example_world_elsewhere))"
proof -
  have d: "cv_document example_runtime example_world_section = Some example_cv"
    "cv_document example_runtime example_world_elsewhere = Some example_cv"
    by (simp_all add: cv_document_def example_world_section_def example_world_elsewhere_def
        example_world_def example_runtime_def)
  have h: "include_hidden_option example_world_section = include_hidden_option example_world_elsewhere"
    by (simp add: include_hidden_option_def example_world_section_def example_world_elsewhere_def
        example_world_def js_def numeral_2_eq_2)
  have l: "linkedin_section example_runtime example_world_section
           = linkedin_section example_runtime example_world_elsewhere"
    by (simp add: linkedin_section_def example_world_section_def example_world_elsewhere_def
        example_world_def numeral_2_eq_2)
  have n: "example_world_section \<noteq> example_world_elsewhere"
  proof
    assume "example_world_section = example_world_elsewhere"
    then have "DEVTO_API_KEY example_world_section = DEVTO_API_KEY example_world_elsewhere" by simp
    then show False
      by (simp add: example_world_section_def example_world_elsewhere_def example_world_def)
  qed
  show ?thesis
    using d h l n
      exporters_deterministic [where rt = example_runtime and ?w1.0 = example_world_section
            and ?w2.0 = example_world_elsewhere and cv = example_cv]
    by simp
qed

end
